theory Spec2Isabelle
  imports Main "HOL-Library.AList" "HOL-Library.Multiset"
begin

section \<open>Go strings\<close>

text \<open>
  A Go \<open>string\<close> and a \<open>[]byte\<close> are byte sequences: both are \<^typ>\<open>string\<close> here, and
  a nil slice is the empty list. The functions of package \<open>strings\<close> that the mail
  server calls are written out on bytes. Case mapping, case folding and white space
  cover the ASCII range; a byte from 128 on is left as it is.
\<close>

definition NUL :: char where
  "NUL = CHR 0x00"

definition CRLF :: string where
  "CRLF = [CHR 0x0D, CHR 0x0A]"

definition toUpperC :: "char \<Rightarrow> char" where
  "toUpperC c =
     (let n = (of_char c :: int) in if 97 \<le> n \<and> n \<le> 122 then char_of (n - 32) else c)"

definition toLowerC :: "char \<Rightarrow> char" where
  "toLowerC c =
     (let n = (of_char c :: int) in if 65 \<le> n \<and> n \<le> 90 then char_of (n + 32) else c)"

definition ToUpper :: "string \<Rightarrow> string" where
  "ToUpper s = map toUpperC s"

definition ToLower :: "string \<Rightarrow> string" where
  "ToLower s = map toLowerC s"

definition EqualFold :: "string \<Rightarrow> string \<Rightarrow> bool" where
  "EqualFold a b = (ToLower a = ToLower b)"

definition isSpaceC :: "char \<Rightarrow> bool" where
  "isSpaceC c = (let n = (of_char c :: int) in (9 \<le> n \<and> n \<le> 13) \<or> n = 32)"

definition TrimSpace :: "string \<Rightarrow> string" where
  "TrimSpace s = rev (dropWhile isSpaceC (rev (dropWhile isSpaceC s)))"

definition HasPrefix :: "string \<Rightarrow> string \<Rightarrow> bool" where
  "HasPrefix s p = (take (length p) s = p)"

definition TrimPrefix :: "string \<Rightarrow> string \<Rightarrow> string" where
  "TrimPrefix s p = (if HasPrefix s p then drop (length p) s else s)"

definition HasSuffix :: "string \<Rightarrow> string \<Rightarrow> bool" where
  "HasSuffix s suf = (length suf \<le> length s \<and> drop (length s - length suf) s = suf)"

definition TrimSuffix :: "string \<Rightarrow> string \<Rightarrow> string" where
  "TrimSuffix s suf = (if HasSuffix s suf then take (length s - length suf) s else s)"

text \<open>\<open>strings.Index(s, "c")\<close> for a one-byte pattern: the first position, or \<open>-1\<close>.\<close>

fun Index :: "string \<Rightarrow> char \<Rightarrow> int" where
  "Index [] c = - 1"
| "Index (x # xs) c =
     (if x = c then 0 else (let i = Index xs c in if i = - 1 then - 1 else i + 1))"

definition Contains :: "string \<Rightarrow> char \<Rightarrow> bool" where
  "Contains s c = (Index s c \<noteq> - 1)"

text \<open>\<open>s[i:j]\<close>, used where the source has established \<open>0 \<le> i \<le> j \<le> len(s)\<close>.\<close>

definition slice :: "string \<Rightarrow> int \<Rightarrow> int \<Rightarrow> string" where
  "slice s i j = take (nat (j - i)) (drop (nat i) s)"

text \<open>
  \<open>strings.Split(s, "c")\<close> for a one-byte separator: the pieces between the
  separators, one more than there are separators, so never an empty list.
\<close>

fun Split :: "string \<Rightarrow> char \<Rightarrow> string list" where
  "Split [] c = [[]]"
| "Split (x # xs) c =
     (if x = c then [] # Split xs c
      else (case Split xs c of [] \<Rightarrow> [[x]] | p # ps \<Rightarrow> (x # p) # ps))"

text \<open>\<open>strings.SplitN(s, " ", 2)\<close>: cut at the first space, if there is one.\<close>

definition SplitN2 :: "string \<Rightarrow> string list" where
  "SplitN2 s =
     (let i = Index s (CHR '' '') in
      if i = - 1 then [s] else [take (nat i) s, drop (nat i + 1) s])"

text \<open>\<open>%d\<close> of \<open>fmt.Sprintf\<close>.\<close>

function digits :: "int \<Rightarrow> string" where
  "digits n = (if n < 10 then [char_of (48 + n)] else digits (n div 10) @ [char_of (48 + n mod 10)])"
  by pat_completeness auto
termination
  by (relation "measure nat") auto

definition itoa :: "int \<Rightarrow> string" where
  "itoa i = (if i < 0 then CHR ''-'' # digits (- i) else digits i)"

section \<open>encoding/base64\<close>

text \<open>
  \<open>base64.StdEncoding.DecodeString\<close>: the standard alphabet with \<open>=\<close> padding.
  The decoder skips carriage returns and line feeds wherever they stand, reads groups of
  four characters, allows padding only at the end of the last group, and rejects
  everything else. The result is \<open>None\<close> where Go returns an error.
\<close>

definition b64val :: "char \<Rightarrow> int option" where
  "b64val c =
     (let n = (of_char c :: int) in
      if 65 \<le> n \<and> n \<le> 90 then Some (n - 65)
      else if 97 \<le> n \<and> n \<le> 122 then Some (n - 71)
      else if 48 \<le> n \<and> n \<le> 57 then Some (n + 4)
      else if n = 43 then Some 62
      else if n = 47 then Some 63
      else None)"

definition fullQuantum :: "char \<Rightarrow> char \<Rightarrow> char \<Rightarrow> char \<Rightarrow> string option" where
  "fullQuantum a b c d =
     (case (b64val a, b64val b, b64val c, b64val d) of
        (Some x, Some y, Some z, Some w) \<Rightarrow>
          (let v = ((x * 64 + y) * 64 + z) * 64 + w
           in Some [char_of (v div 65536), char_of (v div 256 mod 256), char_of (v mod 256)])
      | _ \<Rightarrow> None)"

definition lastQuantum :: "char \<Rightarrow> char \<Rightarrow> char \<Rightarrow> char \<Rightarrow> string option" where
  "lastQuantum a b c d =
     (if c = CHR ''='' then
        (if d = CHR ''='' then
           (case (b64val a, b64val b) of
              (Some x, Some y) \<Rightarrow> Some [char_of ((x * 64 + y) div 16)]
            | _ \<Rightarrow> None)
         else None)
      else if d = CHR ''='' then
        (case (b64val a, b64val b, b64val c) of
           (Some x, Some y, Some z) \<Rightarrow>
             (let v = (x * 64 + y) * 64 + z
              in Some [char_of (v div 1024), char_of (v div 4 mod 256)])
         | _ \<Rightarrow> None)
      else fullQuantum a b c d)"

fun decodeQuanta :: "string \<Rightarrow> string option" where
  "decodeQuanta [] = Some []"
| "decodeQuanta (a # b # c # d # rest) =
     (if rest = [] then lastQuantum a b c d
      else (case fullQuantum a b c d of
              None \<Rightarrow> None
            | Some bs \<Rightarrow> map_option (\<lambda>more. bs @ more) (decodeQuanta rest)))"
| "decodeQuanta _ = None"

definition DecodeString :: "string \<Rightarrow> string option" where
  "DecodeString s = decodeQuanta (filter (\<lambda>c. c \<noteq> CHR 0x0D \<and> c \<noteq> CHR 0x0A) s)"

section \<open>Errors and configuration\<close>

text \<open>
  A Go \<open>error\<close> is its message. \<open>NilDereference\<close> is the run-time panic of a method
  call on a nil interface value.
\<close>

datatype error = Err string | NilDereference

fun Error_msg :: "error \<Rightarrow> string" where
  "Error_msg (Err m) = m"
| "Error_msg NilDereference = ''runtime error: invalid memory address or nil pointer dereference''"

text \<open>
  The process-wide \<open>config.C\<close> is passed explicitly. \<open>MaxSize\<close> is an \<open>int64\<close> and
  \<open>MaxRecipients\<close> an \<open>int\<close>; both are only compared with lengths.
\<close>

record Config =
  Hostname :: string
  ListenAddr :: string
  MaxSizeStr :: string
  MaxSize :: int
  MaxRecipients :: int
  TLSCert :: string
  TLSKey :: string
  AuthFile :: string
  MailDir :: string
  QueueDir :: string
  RelayHost :: string
  RelayPort :: int
  RelayUser :: string
  RelayPassword :: string
  LocalDomains :: "string list"
  EnableWhitelist :: bool
  WhitelistEmails :: "string list"
  RejectMsg :: string

section \<open>Storage (smtpd/storage)\<close>

record QueuedEmail =
  ID :: string
  From :: string
  To :: string
  Data :: string
  CreatedAt :: int
  Attempts :: int
  LastError :: string
  NextRetry :: int

text \<open>
  The two directories are kept as what they hold. \<open>inbox\<close> lists the message files
  written so far, each with the INBOX directory it went to; the file name (time stamp
  and uid counter) is left out. \<open>queue\<close> maps the id of each \<open>id.json\<close> file of the
  queue directory to the entry stored in it.

  The environment is part of the record: \<open>io_fails\<close> tells for which paths the
  operating system refuses an operation (a refused operation writes nothing),
  \<open>clock\<close> is the reading of \<open>time.Now()\<close> in nanoseconds since the epoch, the same for
  every reading within one modelled call, and \<open>pid\<close> is \<open>os.Getpid()\<close>.
\<close>

record Storage =
  mailDir :: string
  queueDir :: string
  inbox :: "(string \<times> string) list"
  queue :: "(string \<times> QueuedEmail) list"
  io_fails :: "string \<Rightarrow> bool"
  clock :: int
  pid :: int

definition Join :: "string \<Rightarrow> string \<Rightarrow> string" where
  "Join dir name = dir @ ''/'' @ name"

definition storage_getDomain :: "string \<Rightarrow> string" where
  "storage_getDomain email =
     (let parts = Split email (CHR ''@'') in if length parts = 2 then parts ! 1 else [])"

definition StoreLocal :: "Storage \<Rightarrow> string \<Rightarrow> string \<Rightarrow> string \<Rightarrow> error option \<times> Storage" where
  "StoreLocal st recipient from dat =
     (let domain = storage_getDomain recipient;
          inboxDir = Join (Join (mailDir st) domain) ''INBOX''
      in if io_fails st inboxDir then (Some (Err ''write failed''), st)
         else (None, st\<lparr>inbox := inbox st @ [(inboxDir, dat)]\<rparr>))"

definition generateQueueID :: "Storage \<Rightarrow> string" where
  "generateQueueID st = itoa (clock st) @ ''-'' @ itoa (pid st)"

definition queueFile :: "Storage \<Rightarrow> string \<Rightarrow> string" where
  "queueFile st i = Join (queueDir st) (i @ ''.json'')"

definition QueueForRelay :: "Storage \<Rightarrow> string \<Rightarrow> string \<Rightarrow> string \<Rightarrow> error option \<times> Storage" where
  "QueueForRelay st from to dat =
     (let email = \<lparr>ID = generateQueueID st, From = from, To = to, Data = dat,
                    CreatedAt = clock st, Attempts = 0, LastError = [], NextRetry = clock st\<rparr>
      in if io_fails st (queueFile st (ID email)) then (Some (Err ''create failed''), st)
         else (None, st\<lparr>queue := AList.update (ID email) email (queue st)\<rparr>))"

definition GetQueuedEmails :: "Storage \<Rightarrow> error + QueuedEmail list" where
  "GetQueuedEmails st =
     (if io_fails st (queueDir st) then Inl (Err ''readdir failed'')
      else Inr (filter (\<lambda>email. NextRetry email \<le> clock st) (map snd (queue st))))"

definition UpdateQueuedEmail :: "Storage \<Rightarrow> QueuedEmail \<Rightarrow> error option \<times> Storage" where
  "UpdateQueuedEmail st email =
     (if io_fails st (queueFile st (ID email)) then (Some (Err ''create failed''), st)
      else (None, st\<lparr>queue := AList.update (ID email) email (queue st)\<rparr>))"

definition RemoveFromQueue :: "Storage \<Rightarrow> string \<Rightarrow> error option \<times> Storage" where
  "RemoveFromQueue st i =
     (if io_fails st (queueFile st i) \<or> map_of (queue st) i = None
      then (Some (Err ''remove failed''), st)
      else (None, st\<lparr>queue := AList.delete i (queue st)\<rparr>))"

section \<open>Server: routing and authentication (smtpd/server)\<close>

record Server =
  users :: "string \<Rightarrow> string option"

definition getDomain :: "string \<Rightarrow> error + string" where
  "getDomain email =
     (let parts = Split email (CHR ''@'')
      in if length parts \<noteq> 2 then Inl (Err ''invalid email'') else Inr (parts ! 1))"

definition isLocalDomain :: "Config \<Rightarrow> string \<Rightarrow> bool" where
  "isLocalDomain cfg domain = list_ex (\<lambda>d. EqualFold d domain) (LocalDomains cfg)"

fun ProcessEmail ::
  "Config \<Rightarrow> Storage \<Rightarrow> string \<Rightarrow> string list \<Rightarrow> string \<Rightarrow> bool \<Rightarrow> error option \<times> Storage" where
  "ProcessEmail cfg st from [] dat au = (None, st)"
| "ProcessEmail cfg st from (recipient # rest) dat au =
     (case getDomain recipient of
        Inl err \<Rightarrow> (Some err, st)
      | Inr domain \<Rightarrow>
          (if isLocalDomain cfg domain then
             (case StoreLocal st recipient from dat of
                (Some err, st') \<Rightarrow> (Some err, st')
              | (None, st') \<Rightarrow> ProcessEmail cfg st' from rest dat au)
           else if \<not> au then (Some (Err ''Cannot relay without auth''), st)
           else
             (case QueueForRelay st from recipient dat of
                (Some err, st') \<Rightarrow> (Some err, st')
              | (None, st') \<Rightarrow> ProcessEmail cfg st' from rest dat au)))"

definition AuthenticatePlain :: "Server \<Rightarrow> string \<Rightarrow> bool" where
  "AuthenticatePlain srv credentials =
     (case DecodeString credentials of
        None \<Rightarrow> False
      | Some decoded \<Rightarrow>
          (let parts = Split decoded NUL
           in if length parts \<noteq> 3 then False
              else (let username = parts ! 1; password = parts ! 2
                    in (case users srv username of
                          None \<Rightarrow> False
                        | Some storedPass \<Rightarrow> storedPass = password))))"

definition AuthenticateLogin :: "Server \<Rightarrow> string \<Rightarrow> string \<Rightarrow> bool \<times> error option" where
  "AuthenticateLogin srv usernameB64 passwordB64 =
     (case DecodeString usernameB64 of
        None \<Rightarrow> (False, Some (Err ''illegal base64 data''))
      | Some username \<Rightarrow>
          (case DecodeString passwordB64 of
             None \<Rightarrow> (False, Some (Err ''illegal base64 data''))
           | Some password \<Rightarrow>
               ((case users srv username of
                   None \<Rightarrow> False
                 | Some storedPass \<Rightarrow> storedPass = password), None)))"

section \<open>Relay client (smtpd/client)\<close>

text \<open>
  The network is the environment. \<open>LookupMX\<close> is the resolver's answer for a domain.
  \<open>smtpDialogue\<close> is the outcome of one whole dialogue of \<open>sendToHost\<close> with a host
  on port 25 (dial, HELO, opportunistic STARTTLS, MAIL, RCPT, DATA, QUIT): \<open>None\<close> when
  every step succeeds, the first error otherwise. \<open>SendMail\<close> is the outcome of
  \<open>smtp.SendMail\<close> through the configured relay.
\<close>

record MX =
  Host :: string
  Pref :: nat

record Net =
  LookupMX :: "string \<Rightarrow> error + MX list"
  smtpDialogue :: "string \<Rightarrow> string \<Rightarrow> string \<Rightarrow> string \<Rightarrow> error option"
  SendMail :: "string \<Rightarrow> string \<Rightarrow> string \<Rightarrow> string \<Rightarrow> error option"

definition client_getDomain :: "string \<Rightarrow> string" where
  "client_getDomain email =
     (let parts = Split email (CHR ''@'') in if length parts = 2 then parts ! 1 else [])"

definition sendToHost :: "Net \<Rightarrow> string \<Rightarrow> string \<Rightarrow> string \<Rightarrow> string \<Rightarrow> error option" where
  "sendToHost net host from to dat = smtpDialogue net host from to dat"

definition sendViaRelay :: "Net \<Rightarrow> Config \<Rightarrow> string \<Rightarrow> string \<Rightarrow> string \<Rightarrow> error option" where
  "sendViaRelay net cfg from to dat =
     SendMail net (RelayHost cfg @ '':'' @ itoa (RelayPort cfg)) from to dat"

text \<open>
  The loop over the sorted records. The second component lists the hosts handed to
  \<open>sendToHost\<close>, in the order of the attempts. \<open>%v\<close> of a nil error prints \<open><nil>\<close>.
\<close>

fun tryHosts ::
  "Net \<Rightarrow> MX list \<Rightarrow> string \<Rightarrow> string \<Rightarrow> string \<Rightarrow> error option \<Rightarrow> error option \<times> string list" where
  "tryHosts net [] from to dat lastErr =
     (Some (Err (''all MX hosts failed, last error: '' @
        (case lastErr of None \<Rightarrow> ''<nil>'' | Some e \<Rightarrow> Error_msg e))), [])"
| "tryHosts net (mx # rest) from to dat lastErr =
     (let host = TrimSuffix (Host mx) ''.''
      in (case sendToHost net host from to dat of
            None \<Rightarrow> (None, [host])
          | Some err \<Rightarrow>
              (case tryHosts net rest from to dat (Some err) of
                 (r, hosts) \<Rightarrow> (r, host # hosts))))"

text \<open>
  \<open>sort.Slice\<close> with the comparison \<open>Pref i < Pref j\<close> is \<^const>\<open>sort_key\<close> on \<open>Pref\<close>;
  Go leaves the order of records of equal preference open, \<^const>\<open>sort_key\<close> keeps
  their order.
\<close>

definition sendDirect :: "Net \<Rightarrow> string \<Rightarrow> string \<Rightarrow> string \<Rightarrow> error option \<times> string list" where
  "sendDirect net from to dat =
     (let domain = client_getDomain to
      in if domain = [] then (Some (Err (''invalid recipient address: '' @ to)), [])
         else (case LookupMX net domain of
                 Inl err \<Rightarrow>
                   (Some (Err (''MX lookup failed for '' @ domain @ '': '' @ Error_msg err)), [])
               | Inr mxRecords \<Rightarrow>
                   (let mxRecords1 =
                          (if length mxRecords = 0 then [\<lparr>Host = domain, Pref = 0\<rparr>]
                           else mxRecords)
                    in tryHosts net (sort_key Pref mxRecords1) from to dat None)))"

definition Send :: "Net \<Rightarrow> Config \<Rightarrow> string \<Rightarrow> string \<Rightarrow> string \<Rightarrow> error option" where
  "Send net cfg from to dat =
     (if RelayHost cfg \<noteq> [] then sendViaRelay net cfg from to dat
      else fst (sendDirect net from to dat))"

section \<open>Queue processor (smtpd/queue)\<close>

definition MaxRetries :: int where
  "MaxRetries = 5"

text \<open>\<open>15 * time.Minute\<close>, a \<open>time.Duration\<close> in nanoseconds.\<close>

definition RetryInterval :: int where
  "RetryInterval = 900000000000"

text \<open>The value of a 64-bit signed result: \<open>int\<close> and \<open>time.Duration\<close> wrap around.\<close>

definition wrap64 :: "int \<Rightarrow> int" where
  "wrap64 x = signed_take_bit 63 x"

definition generateBounce :: "QueuedEmail \<Rightarrow> string" where
  "generateBounce email =
     ''From: MAILER-DAEMON@'' @ From email @ CRLF
     @ ''To: '' @ From email @ CRLF
     @ ''Subject: Mail delivery failed: returning message to sender'' @ CRLF
     @ ''Content-Type: text/plain; charset=utf-8'' @ CRLF
     @ CRLF
     @ ''This message was created automatically by mail delivery software.'' @ CRLF @ CRLF
     @ ''A message that you sent could not be delivered to one or more of its'' @ CRLF
     @ ''recipients. This is a permanent error.'' @ CRLF @ CRLF
     @ ''Recipient: '' @ To email @ CRLF
     @ ''Error: '' @ LastError email @ CRLF
     @ CRLF
     @ ''--- Original message follows ---'' @ CRLF @ CRLF
     @ Data email"

text \<open>The errors of the storage calls are logged and dropped, as in the source.\<close>

definition handlePermanentFailure :: "Storage \<Rightarrow> QueuedEmail \<Rightarrow> Storage" where
  "handlePermanentFailure st email =
     (let bounce = generateBounce email;
          st1 = snd (QueueForRelay st [] (From email) bounce)
      in snd (RemoveFromQueue st1 (ID email)))"

definition processEmail :: "Net \<Rightarrow> Config \<Rightarrow> Storage \<Rightarrow> QueuedEmail \<Rightarrow> Storage" where
  "processEmail net cfg st email =
     (case Send net cfg (From email) (To email) (Data email) of
        Some err \<Rightarrow>
          (let email1 = email\<lparr>Attempts := wrap64 (Attempts email + 1), LastError := Error_msg err\<rparr>
           in if Attempts email1 \<ge> MaxRetries then handlePermanentFailure st email1
              else (let backoff = wrap64 (Attempts email1 * RetryInterval);
                        email2 = email1\<lparr>NextRetry := clock st + backoff\<rparr>
                    in snd (UpdateQueuedEmail st email2)))
      | None \<Rightarrow> snd (RemoveFromQueue st (ID email)))"

definition processQueue :: "Net \<Rightarrow> Config \<Rightarrow> Storage \<Rightarrow> Storage" where
  "processQueue net cfg st =
     (case GetQueuedEmails st of
        Inl err \<Rightarrow> st
      | Inr emails \<Rightarrow> foldl (processEmail net cfg) st emails)"

section \<open>Session: the protocol state machine (smtpd/server)\<close>

text \<open>
  A line handed to \<open>textproto.Writer.PrintfLine\<close>: \<open>"%d %s"\<close> or \<open>"%d-%s"\<close>.
\<close>

datatype wire = Line int string | Cont int string

text \<open>
  The envelope fields are those of the source. The connection is the environment:
  \<open>inp\<close> holds the lines the peer still sends, end of line removed, and a read from
  the empty list is the read error (end of file, or the idle deadline); \<open>out\<close> holds
  the lines written so far; \<open>wfails k\<close> tells whether writing line number \<open>k\<close> fails,
  and a failed write leaves \<open>out\<close> as it is; \<open>cert_ok\<close> tells whether
  \<open>tls.LoadX509KeyPair\<close> succeeds and \<open>handshake_ok\<close> whether the TLS handshake does.
\<close>

record Session =
  helo :: string
  mailFrom :: string
  rcptTo :: "string list"
  data :: string
  tls :: bool
  auth :: bool
  inp :: "string list"
  out :: "wire list"
  wfails :: "nat \<Rightarrow> bool"
  cert_ok :: bool
  handshake_ok :: bool

definition NewSession :: "string list \<Rightarrow> (nat \<Rightarrow> bool) \<Rightarrow> bool \<Rightarrow> bool \<Rightarrow> Session" where
  "NewSession lines wfl cert hs =
     \<lparr>helo = [], mailFrom = [], rcptTo = [], data = [], tls = False, auth = False,
      inp = lines, out = [], wfails = wfl, cert_ok = cert, handshake_ok = hs\<rparr>"

definition PrintfLine :: "wire \<Rightarrow> Session \<Rightarrow> error option \<times> Session" where
  "PrintfLine l s =
     (if wfails s (length (out s)) then (Some (Err ''write failed''), s)
      else (None, s\<lparr>out := out s @ [l]\<rparr>))"

definition ReadLine :: "Session \<Rightarrow> (error + string) \<times> Session" where
  "ReadLine s =
     (case inp s of
        [] \<Rightarrow> (Inl (Err ''EOF''), s)
      | line # rest \<Rightarrow> (Inr line, s\<lparr>inp := rest\<rparr>))"

definition parseCommand :: "string \<Rightarrow> string \<times> string" where
  "parseCommand line =
     (let parts = SplitN2 line
      in (parts ! 0, if length parts > 1 then parts ! 1 else []))"

definition reply :: "int \<Rightarrow> string \<Rightarrow> Session \<Rightarrow> error option \<times> Session" where
  "reply code msg s = PrintfLine (Line code msg) s"

fun replyMulti :: "int \<Rightarrow> string list \<Rightarrow> Session \<Rightarrow> error option \<times> Session" where
  "replyMulti code [] s = (None, s)"
| "replyMulti code [l] s = PrintfLine (Line code l) s"
| "replyMulti code (l # ls) s =
     (case PrintfLine (Cont code l) s of
        (Some e, s') \<Rightarrow> (Some e, s')
      | (None, s') \<Rightarrow> replyMulti code ls s')"

definition extractEmail :: "string \<Rightarrow> string" where
  "extractEmail arg =
     (let start = Index arg (CHR ''<''); end = Index arg (CHR ''>'')
      in if start \<noteq> - 1 \<and> end \<noteq> - 1 \<and> end > start then ToLower (slice arg (start + 1) end)
         else (let arg1 = ToLower (TrimSpace arg)
               in if Contains arg1 (CHR ''@'') then arg1 else []))"

definition isSenderWhitelisted :: "Config \<Rightarrow> string \<Rightarrow> bool" where
  "isSenderWhitelisted cfg email = list_ex (\<lambda>w. HasSuffix email w) (WhitelistEmails cfg)"

definition handleHELO :: "string \<Rightarrow> Session \<Rightarrow> error option \<times> Session" where
  "handleHELO arg s =
     (if arg = [] then reply 501 ''HELO requires domain argument'' s
      else reply 250 (''Hello '' @ arg) (s\<lparr>helo := arg\<rparr>))"

definition handleEHLO :: "Config \<Rightarrow> string \<Rightarrow> Session \<Rightarrow> error option \<times> Session" where
  "handleEHLO cfg arg s =
     (if arg = [] then reply 501 ''EHLO requires domain argument'' s
      else if arg \<noteq> Hostname cfg then reply 501 ''EHLO invalid domain'' s
      else (let s1 = s\<lparr>helo := arg\<rparr>;
                extensions = [''Hello '' @ arg, ''SIZE '' @ itoa (MaxSize cfg),
                              ''8BITMIME'', ''PIPELINING'']
                             @ (if \<not> tls s1 \<and> TLSCert cfg \<noteq> [] then [''STARTTLS''] else [])
            in replyMulti 250 extensions s1))"

definition handleMAIL :: "Config \<Rightarrow> string \<Rightarrow> Session \<Rightarrow> error option \<times> Session" where
  "handleMAIL cfg arg s =
     (if helo s = [] then reply 503 ''EHLO/HELO first'' s
      else (let arg1 = TrimSpace (TrimPrefix (ToUpper arg) ''FROM:'');
                email = extractEmail arg1
            in if email = [] then reply 501 ''Invalid sender address'' s
               else if EnableWhitelist cfg \<and> \<not> auth s \<and> \<not> isSenderWhitelisted cfg email
               then reply 550 (''Sender not on whitelist. '' @ RejectMsg cfg) s
               else reply 250 ''OK'' (s\<lparr>mailFrom := email, rcptTo := [], data := []\<rparr>)))"

definition handleRCPT :: "Config \<Rightarrow> string \<Rightarrow> Session \<Rightarrow> error option \<times> Session" where
  "handleRCPT cfg arg s =
     (if mailFrom s = [] then reply 503 ''MAIL first'' s
      else if int (length (rcptTo s)) \<ge> MaxRecipients cfg then reply 452 ''Too many recipients'' s
      else (let arg1 = TrimSpace (TrimPrefix (ToUpper arg) ''TO:'');
                email = extractEmail arg1
            in if email = [] then reply 501 ''Invalid recipient address'' s
               else (case getDomain email of
                       Inl err \<Rightarrow> reply 550 ''Relay cannot process email'' s
                     | Inr domain \<Rightarrow>
                         (if \<not> isLocalDomain cfg domain \<and> \<not> auth s
                          then reply 550 ''Relay access denied'' s
                          else reply 250 ''OK'' (s\<lparr>rcptTo := rcptTo s @ [email]\<rparr>)))))"

text \<open>
  The loop of \<open>readData\<close> over the lines to come, with the bytes gathered so far. It
  gives the result of \<open>readData\<close> and the lines left unread.
\<close>

fun readLines :: "string list \<Rightarrow> string \<Rightarrow> (error + string) \<times> string list" where
  "readLines [] acc = (Inl (Err ''EOF''), [])"
| "readLines (line # rest) acc =
     (if length line = 1 \<and> line ! 0 = CHR ''.'' then (Inr acc, rest)
      else (let line1 = (if length line > 1 \<and> line ! 0 = CHR ''.'' then drop 1 line else line)
            in readLines rest (acc @ line1 @ CRLF)))"

definition readData :: "Session \<Rightarrow> (error + string) \<times> Session" where
  "readData s = (case readLines (inp s) [] of (r, rest) \<Rightarrow> (r, s\<lparr>inp := rest\<rparr>))"

definition handleDATA ::
  "Config \<Rightarrow> Session \<times> Storage \<Rightarrow> error option \<times> Session \<times> Storage" where
  "handleDATA cfg w =
     (case w of (s, st) \<Rightarrow>
        if length (rcptTo s) = 0 then
          (case reply 503 ''RCPT first'' s of (e, s') \<Rightarrow> (e, s', st))
        else
          (case reply 354 ''Start mail input; end with <CRLF>.<CRLF>'' s of
             (Some e, s1) \<Rightarrow> (Some e, s1, st)
           | (None, s1) \<Rightarrow>
               (case readData s1 of
                  (Inl err, s2) \<Rightarrow>
                    (case reply 451 ''Error reading message'' s2 of (e, s') \<Rightarrow> (e, s', st))
                | (Inr dat, s2) \<Rightarrow>
                    if int (length dat) > MaxSize cfg then
                      (case reply 552 (''Message too large (limit='' @ MaxSizeStr cfg @ '')'') s2 of
                         (e, s') \<Rightarrow> (e, s', st))
                    else
                      (let s3 = s2\<lparr>data := dat\<rparr>
                       in (case ProcessEmail cfg st (mailFrom s3) (rcptTo s3) (data s3) (auth s3) of
                             (Some err, st') \<Rightarrow>
                               (case reply 451 ''Error processing message'' s3 of
                                  (e, s') \<Rightarrow> (e, s', st'))
                           | (None, st') \<Rightarrow>
                               (case reply 250 ''OK message queued'' s3 of
                                  (Some e, s4) \<Rightarrow> (Some e, s4, st')
                                | (None, s4) \<Rightarrow>
                                    (None, s4\<lparr>mailFrom := [], rcptTo := [], data := []\<rparr>, st')))))))"

definition handleRSET :: "Session \<Rightarrow> error option \<times> Session" where
  "handleRSET s = reply 250 ''OK'' (s\<lparr>mailFrom := [], rcptTo := [], data := []\<rparr>)"

definition handleSTARTTLS :: "Config \<Rightarrow> Session \<Rightarrow> error option \<times> Session" where
  "handleSTARTTLS cfg s =
     (if tls s then reply 503 ''TLS already active'' s
      else if TLSCert cfg = [] then reply 502 ''TLS not available'' s
      else if \<not> cert_ok s then reply 454 ''TLS not available'' s
      else (case reply 220 ''Ready to start TLS'' s of
              (Some e, s1) \<Rightarrow> (Some e, s1)
            | (None, s1) \<Rightarrow>
                if \<not> handshake_ok s1 then (Some (Err ''tls: handshake failed''), s1)
                else (None, s1\<lparr>tls := True, helo := [], mailFrom := [], rcptTo := []\<rparr>)))"

definition handleAuthPlain :: "Server \<Rightarrow> string list \<Rightarrow> Session \<Rightarrow> error option \<times> Session" where
  "handleAuthPlain srv parts s =
     (case (if length parts > 1 then (Inr (parts ! 1), s)
            else (case reply 334 [] s of
                    (Some e, s1) \<Rightarrow> (Inl e, s1)
                  | (None, s1) \<Rightarrow> ReadLine s1)) of
        (Inl err, s2) \<Rightarrow> (Some err, s2)
      | (Inr credentials, s2) \<Rightarrow>
          if AuthenticatePlain srv credentials
          then reply 235 ''Authentication successful'' (s2\<lparr>auth := True\<rparr>)
          else reply 535 ''Authentication failed'' s2)"

text \<open>
  After \<open>AuthenticateLogin\<close> the source logs \<open>err.Error()\<close> without testing \<open>err\<close>: with
  a nil error this is the nil dereference, and the ok flag is false with every
  other error.
\<close>

definition handleAuthLogin :: "Server \<Rightarrow> Session \<Rightarrow> error option \<times> Session" where
  "handleAuthLogin srv s =
     (case reply 334 ''VXNlcm5hbWU6'' s of
        (Some e, s1) \<Rightarrow> (Some e, s1)
      | (None, s1) \<Rightarrow>
          (case ReadLine s1 of
             (Inl err, s2) \<Rightarrow> (Some err, s2)
           | (Inr username, s2) \<Rightarrow>
               (case reply 334 ''UGFzc3dvcmQ6'' s2 of
                  (Some e, s3) \<Rightarrow> (Some e, s3)
                | (None, s3) \<Rightarrow>
                    (case ReadLine s3 of
                       (Inl err, s4) \<Rightarrow> (Some err, s4)
                     | (Inr password, s4) \<Rightarrow>
                         (case AuthenticateLogin srv username password of
                            (ok, None) \<Rightarrow> (Some NilDereference, s4)
                          | (ok, Some err) \<Rightarrow>
                              if ok then reply 235 ''Authentication successful'' (s4\<lparr>auth := True\<rparr>)
                              else reply 535 ''Authentication failed'' s4)))))"

definition handleAUTH :: "Server \<Rightarrow> string \<Rightarrow> Session \<Rightarrow> error option \<times> Session" where
  "handleAUTH srv arg s =
     (if auth s then reply 503 ''Already authenticated'' s
      else (let parts = SplitN2 arg; mechanism = ToUpper (parts ! 0)
            in if mechanism = ''PLAIN'' then handleAuthPlain srv parts s
               else if mechanism = ''LOGIN'' then handleAuthLogin srv s
               else reply 504 ''Authentication mechanism not supported'' s))"

text \<open>
  The \<open>switch\<close> of \<open>Handle\<close> for every command but QUIT, on the verb in upper case.
\<close>

definition runCommand ::
  "Config \<Rightarrow> Server \<Rightarrow> string \<Rightarrow> string \<Rightarrow> Session \<times> Storage \<Rightarrow> error option \<times> Session \<times> Storage" where
  "runCommand cfg srv c arg w =
     (case w of (s, st) \<Rightarrow>
        if c = ''HELO'' then (case handleHELO arg s of (e, s') \<Rightarrow> (e, s', st))
        else if c = ''EHLO'' then (case handleEHLO cfg arg s of (e, s') \<Rightarrow> (e, s', st))
        else if c = ''MAIL'' then (case handleMAIL cfg arg s of (e, s') \<Rightarrow> (e, s', st))
        else if c = ''RCPT'' then (case handleRCPT cfg arg s of (e, s') \<Rightarrow> (e, s', st))
        else if c = ''DATA'' then handleDATA cfg (s, st)
        else if c = ''RSET'' then (case handleRSET s of (e, s') \<Rightarrow> (e, s', st))
        else if c = ''NOOP'' then (case reply 250 ''OK'' s of (e, s') \<Rightarrow> (e, s', st))
        else if c = ''STARTTLS'' then (case handleSTARTTLS cfg s of (e, s') \<Rightarrow> (e, s', st))
        else if c = ''AUTH'' then (case handleAUTH srv arg s of (e, s') \<Rightarrow> (e, s', st))
        else (case reply 502 ''Command not implemented'' s of (e, s') \<Rightarrow> (e, s', st)))"

text \<open>
  One pass through the body of the loop of \<open>Handle\<close>, for a non-empty line already
  read: the command is run, and the loop is left after QUIT and after any error.
\<close>

datatype flow = Continue | Return

definition dispatch ::
  "Config \<Rightarrow> Server \<Rightarrow> string \<Rightarrow> Session \<times> Storage \<Rightarrow> flow \<times> Session \<times> Storage" where
  "dispatch cfg srv line w =
     (case w of (s, st) \<Rightarrow>
        (case parseCommand line of (cmd, arg) \<Rightarrow>
           (let c = ToUpper cmd
            in if c = ''QUIT'' then (Return, snd (reply 221 ''Bye'' s), st)
               else (case runCommand cfg srv c arg (s, st) of
                       (None, s', st') \<Rightarrow> (Continue, s', st')
                     | (Some e, s', st') \<Rightarrow> (Return, s', st')))))"

text \<open>
  The loop of \<open>Handle\<close>. \<open>Handle\<close> returns nothing; the model returns the states of
  the session and of the storage at the head of every pass through the loop, and after
  them the state in which the loop is left by a command. A read error ends the loop, an
  empty line is skipped. Every pass takes at least one line of the input, which is
  finite, so the loop ends.
\<close>

function Handle_loop :: "Config \<Rightarrow> Server \<Rightarrow> Session \<Rightarrow> Storage \<Rightarrow> (Session \<times> Storage) list" where
  "Handle_loop cfg srv s st =
     (s, st) #
     (case ReadLine s of
        (Inl err, s1) \<Rightarrow> []
      | (Inr line, s1) \<Rightarrow>
          if length line = 0 then Handle_loop cfg srv s1 st
          else (case dispatch cfg srv line (s1, st) of
                  (Return, s2, st2) \<Rightarrow> [(s2, st2)]
                | (Continue, s2, st2) \<Rightarrow> Handle_loop cfg srv s2 st2))"
  by pat_completeness auto
termination
proof -
  have pl: "\<And>l s. inp (snd (PrintfLine l s)) = inp s"
    by (simp add: PrintfLine_def)
  have rp: "\<And>c m s. inp (snd (reply c m s)) = inp s"
    by (simp add: reply_def pl)
  have rm: "\<And>c ls s. inp (snd (replyMulti c ls s)) = inp s"
  proof -
    fix c ls s show "inp (snd (replyMulti c ls s)) = inp s"
      by (induction c ls s rule: replyMulti.induct)
         (auto simp: PrintfLine_def split: prod.splits option.splits if_splits)
  qed
  have rl: "\<And>s. length (inp (snd (ReadLine s))) \<le> length (inp s)"
    by (simp add: ReadLine_def split: list.splits)
  have rls: "\<And>ls acc. length (snd (readLines ls acc)) \<le> length ls"
  proof -
    fix ls acc show "length (snd (readLines ls acc)) \<le> length ls"
      by (induction ls acc rule: readLines.induct) (auto simp: Let_def le_SucI)
  qed
  have rd: "\<And>s. length (inp (snd (readData s))) \<le> length (inp s)"
    by (simp add: readData_def case_prod_beta rls)
  have helo: "\<And>a s. inp (snd (handleHELO a s)) = inp s"
    by (simp add: handleHELO_def rp)
  have ehlo: "\<And>cfg a s. inp (snd (handleEHLO cfg a s)) = inp s"
    by (simp add: handleEHLO_def rp rm Let_def del: replyMulti.simps)
  have mail: "\<And>cfg a s. inp (snd (handleMAIL cfg a s)) = inp s"
    by (simp add: handleMAIL_def rp Let_def)
  have rcpt: "\<And>cfg a s. inp (snd (handleRCPT cfg a s)) = inp s"
    by (simp add: handleRCPT_def rp Let_def split: sum.splits)
  have rset: "\<And>s. inp (snd (handleRSET s)) = inp s"
    by (simp add: handleRSET_def rp)
  have stls: "\<And>cfg s. inp (snd (handleSTARTTLS cfg s)) = inp s"
    by (simp add: handleSTARTTLS_def rp case_prod_beta split: option.splits)
  have dat: "\<And>cfg s st. length (inp (fst (snd (handleDATA cfg (s, st))))) \<le> length (inp s)"
  proof -
    fix cfg s st
    have "length (inp (snd (readData (snd (reply 354 ''Start mail input; end with <CRLF>.<CRLF>'' s)))))
            \<le> length (inp s)"
      using rd [of "snd (reply 354 ''Start mail input; end with <CRLF>.<CRLF>'' s)"] by (simp add: rp)
    then show "length (inp (fst (snd (handleDATA cfg (s, st))))) \<le> length (inp s)"
      by (simp add: handleDATA_def rp case_prod_beta Let_def split: option.splits sum.splits)
  qed
  have ap: "\<And>srv p s. length (inp (snd (handleAuthPlain srv p s))) \<le> length (inp s)"
  proof -
    fix srv p s
    have "length (inp (snd (ReadLine (snd (reply 334 [] s))))) \<le> length (inp s)"
      using rl [of "snd (reply 334 [] s)"] by (simp add: rp)
    then show "length (inp (snd (handleAuthPlain srv p s))) \<le> length (inp s)"
      by (simp add: handleAuthPlain_def rp case_prod_beta split: option.splits sum.splits)
  qed
  have al: "\<And>srv s. length (inp (snd (handleAuthLogin srv s))) \<le> length (inp s)"
  proof -
    fix srv s
    let ?s2 = "snd (ReadLine (snd (reply 334 ''VXNlcm5hbWU6'' s)))"
    let ?s4 = "snd (ReadLine (snd (reply 334 ''UGFzc3dvcmQ6'' ?s2)))"
    have a: "length (inp ?s2) \<le> length (inp s)"
      using rl [of "snd (reply 334 ''VXNlcm5hbWU6'' s)"] by (simp add: rp)
    have "length (inp ?s4) \<le> length (inp ?s2)"
      using rl [of "snd (reply 334 ''UGFzc3dvcmQ6'' ?s2)"] by (simp add: rp)
    with a have b: "length (inp ?s4) \<le> length (inp s)"
      by simp
    from a b show "length (inp (snd (handleAuthLogin srv s))) \<le> length (inp s)"
      by (simp add: handleAuthLogin_def rp case_prod_beta split: option.splits sum.splits)
  qed
  have au: "\<And>srv a s. length (inp (snd (handleAUTH srv a s))) \<le> length (inp s)"
    by (simp add: handleAUTH_def rp ap al Let_def)
  have run: "\<And>cfg srv c a s st. length (inp (fst (snd (runCommand cfg srv c a (s, st))))) \<le> length (inp s)"
    by (simp add: runCommand_def rp helo ehlo mail rcpt rset stls dat au case_prod_beta)
  have disp: "\<And>cfg srv line s st. length (inp (fst (snd (dispatch cfg srv line (s, st))))) \<le> length (inp s)"
  proof -
    fix cfg srv line s st
    obtain cmd arg where p: "parseCommand line = (cmd, arg)"
      by (cases "parseCommand line")
    obtain e s' st' where r: "runCommand cfg srv (ToUpper cmd) arg (s, st) = (e, s', st')"
      by (cases "runCommand cfg srv (ToUpper cmd) arg (s, st)")
    from run [of cfg srv "ToUpper cmd" arg s st] r have "length (inp s') \<le> length (inp s)"
      by simp
    then show "length (inp (fst (snd (dispatch cfg srv line (s, st))))) \<le> length (inp s)"
      by (simp add: dispatch_def p r rp Let_def split: option.splits)
  qed
  have step1: "\<And>s x y b. (x, y) = ReadLine s \<Longrightarrow> x = Inr b \<Longrightarrow> length (inp y) < length (inp s)"
    by (auto simp: ReadLine_def split: list.splits)
  have step2: "\<And>cfg srv s st x y b xa ya xb yb.
      (x, y) = ReadLine s \<Longrightarrow> x = Inr b \<Longrightarrow> (xa, ya) = dispatch cfg srv b (y, st) \<Longrightarrow>
      (xb, yb) = ya \<Longrightarrow> length (inp xb) < length (inp s)"
  proof -
    fix cfg srv s st x y b xa ya xb yb
    assume r: "(x, y) = ReadLine s" "x = Inr b"
      and d: "(xa, ya) = dispatch cfg srv b (y, st)" "(xb, yb) = ya"
    from d have "xb = fst (snd (dispatch cfg srv b (y, st)))"
      by (metis fst_conv snd_conv)
    then have "length (inp xb) \<le> length (inp y)"
      using disp by simp
    with step1 [OF r] show "length (inp xb) < length (inp s)"
      by simp
  qed
  show ?thesis
  proof (relation "measure (\<lambda>(cfg, srv, s, st). length (inp s))", goal_cases)
    case 1
    show ?case by simp
  next
    case (2 cfg srv s st x y b)
    then show ?case using step1 [of x y s b] by simp
  next
    case (3 cfg srv s st x y b xa ya xb yb)
    then show ?case using step2 [of x y s b xa ya cfg srv st xb yb] by (cases ya) auto
  qed
qed

definition Handle :: "Config \<Rightarrow> Server \<Rightarrow> Session \<Rightarrow> Storage \<Rightarrow> (Session \<times> Storage) list" where
  "Handle cfg srv s st =
     Handle_loop cfg srv (snd (reply 220 (Hostname cfg @ '' ESMTP ready'') s)) st"

section \<open>A sample configuration and environment\<close>

text \<open>Concrete values on which the theorems below are run.\<close>

definition cfg0 :: Config where
  "cfg0 = \<lparr>Hostname = ''mx.example.org'', ListenAddr = '':25'', MaxSizeStr = ''1KB'',
           MaxSize = 1024, MaxRecipients = 2, TLSCert = ''cert.pem'', TLSKey = ''key.pem'',
           AuthFile = ''users.json'', MailDir = ''/var/mail'', QueueDir = ''/var/queue'',
           RelayHost = [], RelayPort = 25, RelayUser = [], RelayPassword = [],
           LocalDomains = [''Example.ORG''], EnableWhitelist = False, WhitelistEmails = [],
           RejectMsg = []\<rparr>"

definition srv0 :: Server where
  "srv0 = \<lparr>users = [''u'' \<mapsto> ''p'']\<rparr>"

definition st0 :: Storage where
  "st0 = \<lparr>mailDir = ''/var/mail'', queueDir = ''/var/queue'', inbox = [], queue = [],
          io_fails = (\<lambda>path. False), clock = 1700000000000000000, pid = 4242\<rparr>"

definition net0 :: Net where
  "net0 = \<lparr>LookupMX = (\<lambda>d. if d = ''example.net''
                 then Inr [\<lparr>Host = ''mx2.example.net.'', Pref = 20\<rparr>,
                           \<lparr>Host = ''mx1.example.net.'', Pref = 10\<rparr>,
                           \<lparr>Host = ''mx3.example.net.'', Pref = 30\<rparr>]
                 else Inr []),
           smtpDialogue = (\<lambda>h f t d. if h = ''mx2.example.net'' \<or> h = ''b.example'' \<or> h = ''b''
                 then None else Some (Err ''connection refused'')),
           SendMail = (\<lambda>a f t d. Some (Err ''connection refused''))\<rparr>"


definition session0 :: "string list \<Rightarrow> Session" where
  "session0 lines = NewSession lines (\<lambda>k. False) True True"

section \<open>Properties of the string functions\<close>

lemma Split_nonempty: "Split s c \<noteq> []"
  by (induction s) (auto split: list.splits)

lemma Split_no_sep: "c \<notin> set a \<Longrightarrow> Split a c = [a]"
  by (induction a) auto

lemma Split_append_sep: "c \<notin> set a \<Longrightarrow> Split (a @ c # rest) c = a # Split rest c"
  by (induction a) (auto split: list.splits simp: Split_nonempty)

section \<open>PLAIN authentication\<close>

text \<open>
  Claim C9. For every input string to PLAIN authentication: when the base64 decoding
  fails, or the decoded bytes split on NUL into a number of fields other than 3,
  \<open>AuthenticatePlain\<close> returns false, whatever the credential table holds.
\<close>

theorem AuthenticatePlain_malformed:
  "DecodeString credentials = None \<or>
   (\<exists>decoded. DecodeString credentials = Some decoded \<and> length (Split decoded NUL) \<noteq> 3)
   \<Longrightarrow> \<not> AuthenticatePlain srv credentials"
  by (auto simp: AuthenticatePlain_def Let_def)

text \<open>
  The payload \<open>u NUL p\<close> has two fields and is refused although the table holds the
  pair; a payload with a wrong padding is refused as well.
\<close>

theorem AuthenticatePlain_malformed_witness:
  "DecodeString ''dQBw'' = Some [CHR ''u'', NUL, CHR ''p'']
   \<and> length (Split [CHR ''u'', NUL, CHR ''p''] NUL) = 2
   \<and> \<not> AuthenticatePlain \<lparr>users = [''u'' \<mapsto> ''p'']\<rparr> ''dQBw''
   \<and> DecodeString ''AHUAcA='' = None
   \<and> \<not> AuthenticatePlain \<lparr>users = [''u'' \<mapsto> ''p'']\<rparr> ''AHUAcA=''"
proof -
  have d: "DecodeString ''dQBw'' = Some [CHR ''u'', NUL, CHR ''p'']"
    by code_simp
  have l: "length (Split [CHR ''u'', NUL, CHR ''p''] NUL) = 2"
    by (simp add: NUL_def)
  have e: "DecodeString ''AHUAcA='' = None"
    by code_simp
  from d l have "\<not> AuthenticatePlain \<lparr>users = [''u'' \<mapsto> ''p'']\<rparr> ''dQBw''"
    by (intro AuthenticatePlain_malformed) simp
  moreover from e have "\<not> AuthenticatePlain \<lparr>users = [''u'' \<mapsto> ''p'']\<rparr> ''AHUAcA=''"
    by (intro AuthenticatePlain_malformed) simp
  ultimately show ?thesis using d l e by simp
qed

lemma length_Split: "length (Split s c) = Suc (length (filter (\<lambda>x. x = c) s))"
  by (induction s) (auto split: list.splits simp: Split_nonempty)

text \<open>
  \<open>AuthenticatePlain\<close> reads the fields of the payload from the second on: two
  payloads whose lists of fields agree after the first field get the same answer.
\<close>

lemma AuthenticatePlain_fields:
  assumes "DecodeString c1 = Some d1" and "DecodeString c2 = Some d2"
    and "tl (Split d1 NUL) = tl (Split d2 NUL)"
  shows "AuthenticatePlain srv c1 = AuthenticatePlain srv c2"
proof -
  obtain x xs where s1: "Split d1 NUL = x # xs"
    using Split_nonempty [of d1 NUL] by (cases "Split d1 NUL") auto
  obtain y ys where s2: "Split d2 NUL = y # ys"
    using Split_nonempty [of d2 NUL] by (cases "Split d2 NUL") auto
  from assms(3) s1 s2 have "ys = xs" by simp
  with assms(1,2) s1 s2 show ?thesis
    by (simp add: AuthenticatePlain_def Let_def)
qed

lemma Split_many:
  "c \<in> set a \<Longrightarrow> length (Split (a @ c # u @ c # p) c) \<noteq> 3"
  by (simp add: length_Split filter_empty_conv)

text \<open>
  Claim C10. PLAIN authentication ignores the authorization identity, the first of
  the NUL-separated fields: credentials that decode to \<open>a1 NUL u NUL p\<close> and to
  \<open>a2 NUL u NUL p\<close>, with the same user name \<open>u\<close> and password \<open>p\<close>, get the same
  answer from \<open>AuthenticatePlain\<close>, for every credential table. A field holds no
  NUL byte, so for two authorization identities neither \<open>a1\<close> nor \<open>a2\<close> holds one;
  the answers also agree when both strings hold a NUL byte, where both payloads have
  more than three fields.
\<close>

theorem AuthenticatePlain_authzid_ignored:
  assumes "DecodeString c1 = Some (a1 @ NUL # u @ NUL # p)"
    and "DecodeString c2 = Some (a2 @ NUL # u @ NUL # p)"
    and "(NUL \<in> set a1) = (NUL \<in> set a2)"
  shows "AuthenticatePlain srv c1 = AuthenticatePlain srv c2"
proof (cases "NUL \<in> set a1")
  case True
  with assms(3) have "NUL \<in> set a2" by simp
  with True assms(1,2) show ?thesis
    by (simp add: AuthenticatePlain_def Let_def Split_many)
next
  case False
  with assms(3) have "NUL \<notin> set a2" by simp
  with False have "tl (Split (a1 @ NUL # u @ NUL # p) NUL) = tl (Split (a2 @ NUL # u @ NUL # p) NUL)"
    by (simp add: Split_append_sep)
  with assms(1,2) show ?thesis
    by (rule AuthenticatePlain_fields)
qed

text \<open>
  The authorization identities \<open>admin\<close> and the empty one, with the user \<open>u\<close> and the
  password \<open>p\<close> of the table: both payloads have three fields and both are accepted.
\<close>

theorem AuthenticatePlain_authzid_ignored_witness:
  "DecodeString ''YWRtaW4AdQBw'' = Some (''admin'' @ NUL # ''u'' @ NUL # ''p'')
   \<and> DecodeString ''AHUAcA=='' = Some ([] @ NUL # ''u'' @ NUL # ''p'')
   \<and> (NUL \<in> set ''admin'') = (NUL \<in> set [])
   \<and> AuthenticatePlain \<lparr>users = [''u'' \<mapsto> ''p'']\<rparr> ''YWRtaW4AdQBw''
       = AuthenticatePlain \<lparr>users = [''u'' \<mapsto> ''p'']\<rparr> ''AHUAcA==''
   \<and> AuthenticatePlain \<lparr>users = [''u'' \<mapsto> ''p'']\<rparr> ''AHUAcA==''
   \<and> Split (''admin'' @ NUL # ''u'' @ NUL # ''p'') NUL = [''admin'', ''u'', ''p'']
   \<and> Split ([] @ NUL # ''u'' @ NUL # ''p'') NUL = [[], ''u'', ''p'']"
proof -
  have n: "(NUL \<in> set ''admin'') = (NUL \<in> set [])"
    by (simp add: NUL_def)
  have d1: "DecodeString ''YWRtaW4AdQBw'' = Some (''admin'' @ NUL # ''u'' @ NUL # ''p'')"
    by code_simp
  have d2: "DecodeString ''AHUAcA=='' = Some ([] @ NUL # ''u'' @ NUL # ''p'')"
    by code_simp
  have t: "AuthenticatePlain \<lparr>users = [''u'' \<mapsto> ''p'']\<rparr> ''AHUAcA==''"
    by (simp add: d2 AuthenticatePlain_def NUL_def)
  have s1: "Split (''admin'' @ NUL # ''u'' @ NUL # ''p'') NUL = [''admin'', ''u'', ''p'']"
    by (simp add: NUL_def)
  have s2: "Split ([] @ NUL # ''u'' @ NUL # ''p'') NUL = [[], ''u'', ''p'']"
    by (simp add: NUL_def)
  from AuthenticatePlain_authzid_ignored [OF d1 d2 n] n d1 d2 t s1 s2
  show ?thesis by simp
qed

section \<open>Direct delivery\<close>

text \<open>
  The hosts that the loop of \<open>sendDirect\<close> hands to \<open>sendToHost\<close> are the hosts
  of the records in their order, up to and with the first one whose dialogue
  succeeds; the loop succeeds when one of them does.
\<close>

lemma tryHosts_hosts:
  "snd (tryHosts net mxs from to dat lastErr) =
     take (Suc (length (takeWhile (\<lambda>h. sendToHost net h from to dat \<noteq> None)
                          (map (\<lambda>mx. TrimSuffix (Host mx) ''.'') mxs))))
          (map (\<lambda>mx. TrimSuffix (Host mx) ''.'') mxs)"
  by (induction mxs arbitrary: lastErr) (simp_all add: Let_def case_prod_beta split: option.splits)

lemma tryHosts_result:
  "(fst (tryHosts net mxs from to dat lastErr) = None) =
     list_ex (\<lambda>h. sendToHost net h from to dat = None) (map (\<lambda>mx. TrimSuffix (Host mx) ''.'') mxs)"
  by (induction mxs arbitrary: lastErr) (simp_all add: Let_def case_prod_beta split: option.splits)

text \<open>
  Claim C8. Without a relay host \<open>Send\<close> is \<open>sendDirect\<close>. Let the recipient have
  the domain \<open>domain\<close> and the lookup of its MX records succeed.

  With no MX record exactly one host is tried, and it is the recipient's domain
  itself: the domain as it stands, or without its final dot when it is written as an
  absolute name (every host name goes through \<open>TrimSuffix\<close> before the dialogue). The
  delivery succeeds exactly when the dialogue with that host does.

  With MX records, let \<open>hs\<close> be the hosts of the records sorted by ascending
  preference. The hosts tried are the hosts of \<open>hs\<close> in this order, up to and with
  the first host whose dialogue succeeds, where \<open>sendDirect\<close> returns success; all
  of \<open>hs\<close> are tried, and an error is returned, when none succeeds.
\<close>

theorem sendDirect_mx_order:
  assumes dom: "client_getDomain to = domain" "domain \<noteq> []"
    and mx: "LookupMX net domain = Inr mxRecords"
    and hs: "hs = map (\<lambda>mx. TrimSuffix (Host mx) ''.'') (sort_key Pref mxRecords)"
  shows "(RelayHost cfg = [] \<longrightarrow> Send net cfg from to dat = fst (sendDirect net from to dat))
       \<and> (mxRecords = [] \<longrightarrow>
            snd (sendDirect net from to dat) = [TrimSuffix domain ''.''] \<and>
            (\<not> HasSuffix domain ''.'' \<longrightarrow> snd (sendDirect net from to dat) = [domain]) \<and>
            (fst (sendDirect net from to dat) = None) =
              (sendToHost net (TrimSuffix domain ''.'') from to dat = None))
       \<and> (mxRecords \<noteq> [] \<longrightarrow>
            sorted (map Pref (sort_key Pref mxRecords)) \<and>
            mset (sort_key Pref mxRecords) = mset mxRecords \<and>
            snd (sendDirect net from to dat) =
              take (Suc (length (takeWhile (\<lambda>h. sendToHost net h from to dat \<noteq> None) hs))) hs \<and>
            (fst (sendDirect net from to dat) = None) =
              list_ex (\<lambda>h. sendToHost net h from to dat = None) hs)"
proof (intro conjI impI)
  assume "RelayHost cfg = []"
  then show "Send net cfg from to dat = fst (sendDirect net from to dat)"
    by (simp add: Send_def)
next
  assume e: "mxRecords = []"
  have sd: "sendDirect net from to dat = tryHosts net [\<lparr>Host = domain, Pref = 0\<rparr>] from to dat None"
    using dom mx e by (simp add: sendDirect_def Let_def)
  show one: "snd (sendDirect net from to dat) = [TrimSuffix domain ''.'']"
    unfolding sd by (simp add: Let_def split: option.splits)
  show "(fst (sendDirect net from to dat) = None) =
          (sendToHost net (TrimSuffix domain ''.'') from to dat = None)"
    unfolding sd by (simp add: Let_def split: option.splits)
  assume "\<not> HasSuffix domain ''.''"
  with one show "snd (sendDirect net from to dat) = [domain]"
    by (simp add: TrimSuffix_def)
next
  assume "mxRecords \<noteq> []"
  show "sorted (map Pref (sort_key Pref mxRecords))"
    by (rule sorted_sort_key)
next
  show "mset (sort_key Pref mxRecords) = mset mxRecords"
    by simp
next
  assume ne: "mxRecords \<noteq> []"
  have sd: "sendDirect net from to dat = tryHosts net (sort_key Pref mxRecords) from to dat None"
    using dom mx ne by (simp add: sendDirect_def Let_def)
  show "snd (sendDirect net from to dat) =
          take (Suc (length (takeWhile (\<lambda>h. sendToHost net h from to dat \<noteq> None) hs))) hs"
    unfolding sd hs by (rule tryHosts_hosts)
  show "(fst (sendDirect net from to dat) = None) =
          list_ex (\<lambda>h. sendToHost net h from to dat = None) hs"
    unfolding sd hs by (rule tryHosts_result)
qed

text \<open>
  In the sample network \<open>example.net\<close> has three MX records, given out of order, and
  only the host of preference 20 accepts mail: the host of preference 10 is tried
  first, then the one of preference 20, and the one of preference 30 is not tried.
  The domain \<open>b.example\<close> has no MX record and is tried itself, once.
\<close>

theorem sendDirect_mx_order_witness:
  "client_getDomain ''a@example.net'' = ''example.net''
   \<and> LookupMX net0 ''example.net'' =
        Inr [\<lparr>Host = ''mx2.example.net.'', Pref = 20\<rparr>, \<lparr>Host = ''mx1.example.net.'', Pref = 10\<rparr>,
             \<lparr>Host = ''mx3.example.net.'', Pref = 30\<rparr>]
   \<and> sendDirect net0 ''s@example.org'' ''a@example.net'' ''m''
        = (None, [''mx1.example.net'', ''mx2.example.net''])
   \<and> Send net0 cfg0 ''s@example.org'' ''a@example.net'' ''m'' = None
   \<and> client_getDomain ''a@b.example'' = ''b.example''
   \<and> LookupMX net0 ''b.example'' = Inr []
   \<and> sendDirect net0 ''s@example.org'' ''a@b.example'' ''m'' = (None, [''b.example''])"
proof -
  let ?recs = "[\<lparr>Host = ''mx2.example.net.'', Pref = 20\<rparr>, \<lparr>Host = ''mx1.example.net.'', Pref = 10\<rparr>,
                \<lparr>Host = ''mx3.example.net.'', Pref = 30\<rparr>]"
  have d1: "client_getDomain ''a@example.net'' = ''example.net''"
    by (simp add: client_getDomain_def)
  have n1: "''example.net'' \<noteq> []"
    by simp
  have l1: "LookupMX net0 ''example.net'' = Inr ?recs"
    by (simp add: net0_def)
  have h1: "[''mx1.example.net'', ''mx2.example.net'', ''mx3.example.net'']
              = map (\<lambda>mx. TrimSuffix (Host mx) ''.'') (sort_key Pref ?recs)"
    by (simp add: TrimSuffix_def HasSuffix_def)
  have r1: "RelayHost cfg0 = []"
    by (simp add: cfg0_def)
  have d2: "client_getDomain ''a@b.example'' = ''b.example''"
    by (simp add: client_getDomain_def)
  have n2: "''b.example'' \<noteq> []"
    by simp
  have l2: "LookupMX net0 ''b.example'' = Inr []"
    by (simp add: net0_def)
  have h2: "[] = map (\<lambda>mx. TrimSuffix (Host mx) ''.'') (sort_key Pref [])"
    by simp
  have s2: "\<not> HasSuffix ''b.example'' ''.''"
    by (simp add: HasSuffix_def)
  from sendDirect_mx_order [OF d1 n1 l1 h1, of cfg0 "''s@example.org''" "''m''"] r1
  have a: "Send net0 cfg0 ''s@example.org'' ''a@example.net'' ''m''
             = fst (sendDirect net0 ''s@example.org'' ''a@example.net'' ''m'')"
    and b: "snd (sendDirect net0 ''s@example.org'' ''a@example.net'' ''m'')
             = [''mx1.example.net'', ''mx2.example.net'']"
    and c: "fst (sendDirect net0 ''s@example.org'' ''a@example.net'' ''m'') = None"
    by (simp_all add: net0_def sendToHost_def)
  from sendDirect_mx_order [OF d2 n2 l2 h2, of cfg0 "''s@example.org''" "''m''"] s2
  have d: "snd (sendDirect net0 ''s@example.org'' ''a@b.example'' ''m'') = [''b.example'']"
    and e: "fst (sendDirect net0 ''s@example.org'' ''a@b.example'' ''m'') = None"
    by (simp_all add: net0_def sendToHost_def TrimSuffix_def)
  from a b c d e d1 l1 d2 l2 show ?thesis
    by (simp add: prod_eq_iff)
qed

section \<open>Queue processor: retry and bounce\<close>







section \<open>Session: replies and the order of commands\<close>

text \<open>
  A reply writes one line and touches nothing else: when the write succeeds the line
  is added to the output, and when it fails the session is as before.
\<close>

lemma reply_ok:
  "\<not> wfails s (length (out s)) \<Longrightarrow> reply code msg s = (None, s\<lparr>out := out s @ [Line code msg]\<rparr>)"
  by (simp add: reply_def PrintfLine_def)

lemma reply_failed:
  "wfails s (length (out s)) \<Longrightarrow> reply code msg s = (Some (Err ''write failed''), s)"
  by (simp add: reply_def PrintfLine_def)

lemma reply_frame:
  "helo (snd (reply code msg s)) = helo s"
  "mailFrom (snd (reply code msg s)) = mailFrom s"
  "rcptTo (snd (reply code msg s)) = rcptTo s"
  "data (snd (reply code msg s)) = data s"
  "tls (snd (reply code msg s)) = tls s"
  "auth (snd (reply code msg s)) = auth s"
  "inp (snd (reply code msg s)) = inp s"
  by (simp_all add: reply_def PrintfLine_def)

text \<open>
  Claim C2. In every state of a session: MAIL with no greeting (\<open>helo\<close> empty), RCPT
  with no sender (\<open>mailFrom\<close> empty) and DATA with no recipient (\<open>rcptTo\<close> empty) do
  nothing but reply 503. The reply leaves \<open>helo\<close>, \<open>mailFrom\<close>, \<open>rcptTo\<close> and
  \<open>data\<close> as they are, DATA leaves the storage as it is, and the line 503 is the one
  line written.
\<close>

theorem sequencing_503:
  "(helo s = [] \<longrightarrow> handleMAIL cfg arg s = reply 503 ''EHLO/HELO first'' s)
   \<and> (mailFrom s = [] \<longrightarrow> handleRCPT cfg arg s = reply 503 ''MAIL first'' s)
   \<and> (rcptTo s = [] \<longrightarrow>
        handleDATA cfg (s, st) =
          (fst (reply 503 ''RCPT first'' s), snd (reply 503 ''RCPT first'' s), st))
   \<and> helo (snd (reply 503 msg s)) = helo s
   \<and> mailFrom (snd (reply 503 msg s)) = mailFrom s
   \<and> rcptTo (snd (reply 503 msg s)) = rcptTo s
   \<and> data (snd (reply 503 msg s)) = data s
   \<and> (\<not> wfails s (length (out s)) \<longrightarrow>
        reply 503 msg s = (None, s\<lparr>out := out s @ [Line 503 msg]\<rparr>))"
  by (simp add: handleMAIL_def handleRCPT_def handleDATA_def reply_frame reply_ok case_prod_beta)

text \<open>
  A session that has just been opened, and one in which only HELO has been given.
\<close>

theorem sequencing_503_witness:
  "helo (session0 []) = [] \<and> mailFrom (session0 []) = [] \<and> rcptTo (session0 []) = []
   \<and> \<not> wfails (session0 []) (length (out (session0 [])))
   \<and> handleMAIL cfg0 ''FROM:<a@example.org>'' (session0 [])
        = (None, (session0 [])\<lparr>out := [Line 503 ''EHLO/HELO first'']\<rparr>)
   \<and> handleRCPT cfg0 ''TO:<b@example.org>'' ((session0 [])\<lparr>helo := ''client''\<rparr>)
        = (None, (session0 [])\<lparr>helo := ''client'', out := [Line 503 ''MAIL first'']\<rparr>)
   \<and> handleDATA cfg0 ((session0 [])\<lparr>helo := ''client'', mailFrom := ''a@example.org''\<rparr>, st0)
        = (None, (session0 [])\<lparr>helo := ''client'', mailFrom := ''a@example.org'',
                                 out := [Line 503 ''RCPT first'']\<rparr>, st0)"
proof -
  let ?s1 = "(session0 [])\<lparr>helo := ''client''\<rparr>"
  let ?s2 = "(session0 [])\<lparr>helo := ''client'', mailFrom := ''a@example.org''\<rparr>"
  have e: "helo (session0 []) = []" "mailFrom ?s1 = []" "rcptTo ?s2 = []"
    "mailFrom (session0 []) = []" "rcptTo (session0 []) = []"
    by (simp_all add: session0_def NewSession_def)
  have w: "\<not> wfails (session0 []) (length (out (session0 [])))"
    "\<not> wfails ?s1 (length (out ?s1))" "\<not> wfails ?s2 (length (out ?s2))"
    by (simp_all add: session0_def NewSession_def)
  have o: "out (session0 []) = []"
    by (simp add: session0_def NewSession_def)
  from sequencing_503 [of "session0 []" cfg0 "''FROM:<a@example.org>''" st0 "''EHLO/HELO first''"] e w
  have a: "handleMAIL cfg0 ''FROM:<a@example.org>'' (session0 [])
             = (None, (session0 [])\<lparr>out := [Line 503 ''EHLO/HELO first'']\<rparr>)"
    by (simp add: o)
  from sequencing_503 [of ?s1 cfg0 "''TO:<b@example.org>''" st0 "''MAIL first''"] e w
  have b: "handleRCPT cfg0 ''TO:<b@example.org>'' ?s1
             = (None, ?s1\<lparr>out := [Line 503 ''MAIL first'']\<rparr>)"
    by (simp add: o)
  from sequencing_503 [of ?s2 cfg0 "[]" st0 "''RCPT first''"] e w
  have c: "handleDATA cfg0 (?s2, st0) = (None, ?s2\<lparr>out := [Line 503 ''RCPT first'']\<rparr>, st0)"
    by (simp add: o)
  from a b c e w show ?thesis
    by simp
qed

section \<open>Session: the message body\<close>



section \<open>Session: STARTTLS\<close>

text \<open>
  Claim C7. STARTTLS upgrades the connection when TLS is not active yet, a
  certificate is configured and loads, the line 220 is written and the handshake
  succeeds. The session after the upgrade is the session before it with the line 220
  written, \<open>tls\<close> set, and \<open>helo\<close>, \<open>mailFrom\<close> and \<open>rcptTo\<close> empty: \<open>auth\<close> and \<open>data\<close>
  and the lines to come are as before. A MAIL command in this session is answered
  with 503 and changes nothing else.
\<close>

theorem STARTTLS_resets:
  assumes "\<not> tls s" and "TLSCert cfg \<noteq> []" and "cert_ok s"
    and "\<not> wfails s (length (out s))" and "handshake_ok s"
    and "s' = snd (handleSTARTTLS cfg s)"
  shows "handleSTARTTLS cfg s =
           (None, s\<lparr>out := out s @ [Line 220 ''Ready to start TLS''], tls := True,
                     helo := [], mailFrom := [], rcptTo := []\<rparr>)
       \<and> tls s' \<and> helo s' = [] \<and> mailFrom s' = [] \<and> rcptTo s' = []
       \<and> auth s' = auth s \<and> data s' = data s \<and> inp s' = inp s
       \<and> handleMAIL cfg arg s' = reply 503 ''EHLO/HELO first'' s'
       \<and> (\<not> wfails s' (length (out s')) \<longrightarrow>
            handleMAIL cfg arg s' = (None, s'\<lparr>out := out s' @ [Line 503 ''EHLO/HELO first'']\<rparr>))"
proof -
  have r: "handleSTARTTLS cfg s =
           (None, s\<lparr>out := out s @ [Line 220 ''Ready to start TLS''], tls := True,
                     helo := [], mailFrom := [], rcptTo := []\<rparr>)"
    using assms(1-5) by (simp add: handleSTARTTLS_def reply_ok)
  then have s': "s' = s\<lparr>out := out s @ [Line 220 ''Ready to start TLS''], tls := True,
                     helo := [], mailFrom := [], rcptTo := []\<rparr>"
    by (simp add: assms(6))
  have m: "handleMAIL cfg arg s' = reply 503 ''EHLO/HELO first'' s'"
    by (simp add: s' handleMAIL_def)
  from r m show ?thesis
    by (simp add: s' reply_ok)
qed

text \<open>
  An authenticated session with an open transaction: after the upgrade the
  transaction is gone, the session is still authenticated, and MAIL gets 503.
\<close>

theorem STARTTLS_resets_witness:
  "handleSTARTTLS cfg0
     ((session0 [])\<lparr>helo := ''client'', mailFrom := ''a@example.org'',
                    rcptTo := [''b@example.org''], auth := True\<rparr>)
     = (None, (session0 [])\<lparr>auth := True, tls := True, out := [Line 220 ''Ready to start TLS'']\<rparr>)
   \<and> handleMAIL cfg0 ''FROM:<a@example.org>''
        ((session0 [])\<lparr>auth := True, tls := True, out := [Line 220 ''Ready to start TLS'']\<rparr>)
     = (None, (session0 [])\<lparr>auth := True, tls := True,
                             out := [Line 220 ''Ready to start TLS'', Line 503 ''EHLO/HELO first'']\<rparr>)"
proof -
  let ?s = "(session0 [])\<lparr>helo := ''client'', mailFrom := ''a@example.org'',
                          rcptTo := [''b@example.org''], auth := True\<rparr>"
  let ?s' = "(session0 [])\<lparr>auth := True, tls := True, out := [Line 220 ''Ready to start TLS'']\<rparr>"
  have h: "\<not> tls ?s" "TLSCert cfg0 \<noteq> []" "cert_ok ?s" "\<not> wfails ?s (length (out ?s))"
    "handshake_ok ?s"
    by (simp_all add: session0_def NewSession_def cfg0_def)
  note t = STARTTLS_resets [OF h refl, where arg = "''FROM:<a@example.org>''"]
  from t have a: "handleSTARTTLS cfg0 ?s = (None, ?s')"
    by (simp add: session0_def NewSession_def)
  have w: "\<not> wfails ?s' (length (out ?s'))"
    by (simp add: session0_def NewSession_def)
  from t have "\<not> wfails (snd (handleSTARTTLS cfg0 ?s)) (length (out (snd (handleSTARTTLS cfg0 ?s)))) \<longrightarrow>
      handleMAIL cfg0 ''FROM:<a@example.org>'' (snd (handleSTARTTLS cfg0 ?s))
        = (None, (snd (handleSTARTTLS cfg0 ?s))\<lparr>out := out (snd (handleSTARTTLS cfg0 ?s)) @ [Line 503 ''EHLO/HELO first'']\<rparr>)"
    by blast
  with w have b: "handleMAIL cfg0 ''FROM:<a@example.org>'' ?s'
        = (None, ?s'\<lparr>out := out ?s' @ [Line 503 ''EHLO/HELO first'']\<rparr>)"
    by (simp add: a)
  from a b show ?thesis
    by (simp add: session0_def NewSession_def)
qed

section \<open>Relay authorisation\<close>







section \<open>Session: the transaction after DATA\<close>

text \<open>
  \<open>handleDATA\<close> empties \<open>mailFrom\<close>, \<open>rcptTo\<close> and \<open>data\<close> after the reply 250 only.
  The replies 451 and 552 are returned before the reset: whenever DATA has written its
  line 354 and then a line with another code than 250, \<open>mailFrom\<close> and \<open>rcptTo\<close> are
  what they were before the command.
\<close>

lemma handleDATA_failure_keeps_envelope:
  assumes "handleDATA cfg (s, st) = (e, s', st')"
    and "out s' = out s @ [Line 354 m1, Line code m2]"
    and "code \<noteq> 250"
  shows "mailFrom s' = mailFrom s \<and> rcptTo s' = rcptTo s"
proof -
  have rd: "mailFrom (snd (readData t)) = mailFrom t \<and> rcptTo (snd (readData t)) = rcptTo t
            \<and> out (snd (readData t)) = out t \<and> wfails (snd (readData t)) = wfails t" for t
    by (simp add: readData_def case_prod_beta)
  show ?thesis
  proof (cases "rcptTo s = []")
    case True
    with assms show ?thesis
      by (auto simp: handleDATA_def reply_def PrintfLine_def split: if_splits)
  next
    case ne: False
    show ?thesis
    proof (cases "wfails s (length (out s))")
      case True
      with assms ne show ?thesis
        by (auto simp: handleDATA_def reply_def PrintfLine_def)
    next
      case False
      let ?s1 = "s\<lparr>out := out s @ [Line 354 ''Start mail input; end with <CRLF>.<CRLF>'']\<rparr>"
      obtain r s2 where r: "readData ?s1 = (r, s2)"
        by (cases "readData ?s1")
      from rd [of ?s1] r have s2: "mailFrom s2 = mailFrom s" "rcptTo s2 = rcptTo s"
        "out s2 = out s @ [Line 354 ''Start mail input; end with <CRLF>.<CRLF>'']"
        "wfails s2 = wfails s"
        by simp_all
      show ?thesis
      proof (cases r)
        case (Inl err)
        with assms ne False r s2 show ?thesis
          by (auto simp: handleDATA_def reply_def PrintfLine_def split: if_splits)
      next
        case (Inr dat)
        show ?thesis
        proof (cases "int (length dat) > MaxSize cfg")
          case True
          with assms ne False r s2 Inr show ?thesis
            by (auto simp: handleDATA_def reply_def PrintfLine_def split: if_splits)
        next
          case small: False
          obtain pe st1 where pe: "ProcessEmail cfg st (mailFrom s2) (rcptTo s2) dat (auth s2) = (pe, st1)"
            by (cases "ProcessEmail cfg st (mailFrom s2) (rcptTo s2) dat (auth s2)")
          from assms ne False r s2 Inr small pe show ?thesis
            by (cases pe) (auto simp: handleDATA_def reply_def PrintfLine_def Let_def split: if_splits)
        qed
      qed
    qed
  qed
qed

text \<open>
  Claim C4 does not hold of the code. With a limit of 10 bytes, a client gives a
  sender and one recipient and sends a body of 12 bytes, which is refused with 552.
  The states at the head of the command loop show the sender and the recipient still
  in place after the refusal. A second DATA, with no MAIL and no RCPT before it, is
  answered with 354 and its body is delivered to the recipient of the refused
  message; only this successful DATA empties the transaction.
\<close>

theorem handleDATA_oversize_keeps_envelope:
  "map (\<lambda>(s, st). (mailFrom s, rcptTo s))
     (Handle (cfg0\<lparr>MaxSize := 10\<rparr>) srv0
        (session0 [''HELO client'', ''MAIL FROM:<a@example.org>'', ''RCPT TO:<bob@example.org>'',
                   ''DATA'', ''0123456789'', ''.'', ''DATA'', ''short'', ''.'', ''QUIT'']) st0)
     = [([], []), ([], []), (''a@example.org'', []), (''a@example.org'', [''bob@example.org'']),
        (''a@example.org'', [''bob@example.org'']), ([], []), ([], [])]
   \<and> out (fst (last (Handle (cfg0\<lparr>MaxSize := 10\<rparr>) srv0
        (session0 [''HELO client'', ''MAIL FROM:<a@example.org>'', ''RCPT TO:<bob@example.org>'',
                   ''DATA'', ''0123456789'', ''.'', ''DATA'', ''short'', ''.'', ''QUIT'']) st0)))
     = [Line 220 ''mx.example.org ESMTP ready'', Line 250 ''Hello client'', Line 250 ''OK'',
        Line 250 ''OK'', Line 354 ''Start mail input; end with <CRLF>.<CRLF>'',
        Line 552 ''Message too large (limit=1KB)'',
        Line 354 ''Start mail input; end with <CRLF>.<CRLF>'', Line 250 ''OK message queued'',
        Line 221 ''Bye'']
   \<and> inbox (snd (last (Handle (cfg0\<lparr>MaxSize := 10\<rparr>) srv0
        (session0 [''HELO client'', ''MAIL FROM:<a@example.org>'', ''RCPT TO:<bob@example.org>'',
                   ''DATA'', ''0123456789'', ''.'', ''DATA'', ''short'', ''.'', ''QUIT'']) st0)))
     = [(''/var/mail/example.org/INBOX'', ''short'' @ CRLF)]"
  by code_simp

end
